theory Spec2Isabelle
  imports Main
begin

section \<open>The Intel compiler mixins of \<^verbatim>\<open>mesonbuild/compilers/mixins/intel.py\<close>\<close>

text \<open>
  The module defines two mixin classes: \<^verbatim>\<open>IntelGnuLikeCompiler\<close> (ICC, the POSIX-like
  adapter) and \<^verbatim>\<open>IntelVisualStudioLikeCompiler\<close> (ICL, the Windows-like adapter). Names of
  the second class carry the prefix \<open>VS_\<close> where both classes define a member of the same
  name; members of the first class keep the plain name.
\<close>

subsection \<open>Python values and exceptions\<close>

text \<open>
  The exception classes that occur in the module and in the documents about it.
  \<open>KeyError\<close> is what a failed subscript of a \<^verbatim>\<open>dict\<close> raises (it carries the key),
  \<open>ValueError\<close> is what a failed unpacking and a failed \<^verbatim>\<open>int(...)\<close> raise. The module
  itself has no \<^verbatim>\<open>raise\<close> statement; \<open>ConfigurationError\<close> and
  \<open>ToolchainDetectionError\<close> are the names used by the specification, and
  \<open>FileNotFoundError\<close> and \<open>OtherError\<close> stand for whatever a collaborator raises.
\<close>

datatype exn =
    KeyError string
  | ValueError
  | FileNotFoundError
  | ConfigurationError
  | ToolchainDetectionError
  | OtherError string

text \<open>
  The values a keyword argument can hold: \<^verbatim>\<open>None\<close>, a string, or a list of values
  (lists nest).
\<close>

datatype pyval = PNone | PStr string | PList "pyval list"

text \<open>Truth value of a Python object, as the operator \<^verbatim>\<open>or\<close> tests it.\<close>

fun truthy :: "pyval \<Rightarrow> bool" where
  "truthy PNone = False"
| "truthy (PStr s) = (s \<noteq> [])"
| "truthy (PList xs) = (xs \<noteq> [])"

text \<open>\<^verbatim>\<open>d[k]\<close> on a dictionary written as a literal: the entries in source order.\<close>

definition subscript :: "(string \<times> 'v) list \<Rightarrow> string \<Rightarrow> exn + 'v" where
  "subscript d k = (case map_of d k of None \<Rightarrow> Inl (KeyError k) | Some v \<Rightarrow> Inr v)"

subsection \<open>Flag tables\<close>

definition BUILD_ARGS :: "(string \<times> string list) list" where
  "BUILD_ARGS =
    [(''plain'', []),
     (''debug'', [''-g'', ''-traceback'']),
     (''debugoptimized'', [''-g'', ''-traceback'']),
     (''release'', []),
     (''minsize'', []),
     (''custom'', [])]"

definition OPTIM_ARGS :: "(string \<times> string list) list" where
  "OPTIM_ARGS =
    [(''0'', [''-O0'']),
     (''g'', [''-O0'']),
     (''1'', [''-O1'']),
     (''2'', [''-O2'']),
     (''3'', [''-O3'']),
     (''s'', [''-Os''])]"

definition VS_BUILD_ARGS :: "(string \<times> string list) list" where
  "VS_BUILD_ARGS =
    [(''plain'', []),
     (''debug'', [''/Zi'', ''/traceback'']),
     (''debugoptimized'', [''/Zi'', ''/traceback'']),
     (''release'', []),
     (''minsize'', []),
     (''custom'', [])]"

definition VS_OPTIM_ARGS :: "(string \<times> string list) list" where
  "VS_OPTIM_ARGS =
    [(''0'', [''/O0'']),
     (''g'', [''/O0'']),
     (''1'', [''/O1'']),
     (''2'', [''/O2'']),
     (''3'', [''/O3'']),
     (''s'', [''/Os''])]"

definition get_buildtype_args :: "string \<Rightarrow> exn + string list" where
  "get_buildtype_args buildtype = subscript BUILD_ARGS buildtype"

definition get_optimization_args :: "string \<Rightarrow> exn + string list" where
  "get_optimization_args optimization_level = subscript OPTIM_ARGS optimization_level"

definition VS_get_buildtype_args :: "string \<Rightarrow> exn + string list" where
  "VS_get_buildtype_args buildtype = subscript VS_BUILD_ARGS buildtype"

definition VS_get_optimization_args :: "string \<Rightarrow> exn + string list" where
  "VS_get_optimization_args optimization_level = subscript VS_OPTIM_ARGS optimization_level"

text \<open>The two closed key sets of the data model.\<close>

definition build_type_keys :: "string list" where
  "build_type_keys =
    [''plain'', ''debug'', ''debugoptimized'', ''release'', ''minsize'', ''custom'']"

definition optimization_level_keys :: "string list" where
  "optimization_level_keys = [''0'', ''g'', ''1'', ''2'', ''3'', ''s'']"

subsection \<open>Precompiled header names\<close>

text \<open>
  \<^verbatim>\<open>str.rfind\<close> for a single-character needle: the highest index of the character,
  or \<open>-1\<close> when it does not occur.
\<close>

fun rfind :: "string \<Rightarrow> char \<Rightarrow> int" where
  "rfind [] c = - 1"
| "rfind (x # xs) c =
     (let r = rfind xs c in if 0 \<le> r then r + 1 else if x = c then 0 else - 1)"

text \<open>
  \<^verbatim>\<open>os.path.basename\<close> of the standard library on the POSIX hosts this mixin is for
  (macOS and Linux): \<^verbatim>\<open>i = p.rfind('/') + 1; return p[i:]\<close>.
\<close>

definition basename :: "string \<Rightarrow> string" where
  "basename p = (let i = rfind p CHR ''/'' + 1 in drop (nat i) p)"

definition get_pch_suffix :: "string" where
  "get_pch_suffix = ''pchi''"

definition get_pch_name :: "string \<Rightarrow> string" where
  "get_pch_name header_name = basename header_name @ ''.'' @ get_pch_suffix"

subsection \<open>OpenMP flags\<close>

text \<open>\<^verbatim>\<open>str.split(sep)\<close> for a single-character separator.\<close>

fun str_split :: "string \<Rightarrow> char \<Rightarrow> string list" where
  "str_split [] sep = [[]]"
| "str_split (c # cs) sep =
     (if c = sep then [] # str_split cs sep
      else (case str_split cs sep of w # ws \<Rightarrow> (c # w) # ws | [] \<Rightarrow> [[c]]))"

definition is_digit :: "char \<Rightarrow> bool" where
  "is_digit c = (c \<in> set ''0123456789'')"

definition digit_val :: "char \<Rightarrow> nat" where
  "digit_val c = of_char c - 48"

text \<open>
  Modelled from the spec: \<^verbatim>\<open>mesonlib.version_compare\<close>, the "compare version strings"
  utility, is not part of the sources at hand. The specification describes a compiler
  version as a dotted numeric version and the comparison against the threshold as
  inclusive (\<^verbatim>\<open>>=\<close>). A version is read as the list of its numeric components, and
  versions are ordered component by component from the left; where one version is a
  proper prefix of the other, the shorter one is the smaller. A condition is a comparison
  operator followed by a version. A version or condition that does not have this form
  satisfies no condition.
\<close>

fun decimal :: "string \<Rightarrow> nat \<Rightarrow> nat option" where
  "decimal [] acc = Some acc"
| "decimal (c # cs) acc = (if is_digit c then decimal cs (acc * 10 + digit_val c) else None)"

fun all_some :: "'a option list \<Rightarrow> 'a list option" where
  "all_some [] = Some []"
| "all_some (None # xs) = None"
| "all_some (Some x # xs) = (case all_some xs of None \<Rightarrow> None | Some ys \<Rightarrow> Some (x # ys))"

definition parse_version :: "string \<Rightarrow> nat list option" where
  "parse_version v =
     all_some (map (\<lambda>w. if w = [] then None else decimal w 0) (str_split v CHR ''.''))"

fun version_lt :: "nat list \<Rightarrow> nat list \<Rightarrow> bool" where
  "version_lt [] [] = False"
| "version_lt [] (b # bs) = True"
| "version_lt (a # as) [] = False"
| "version_lt (a # as) (b # bs) = (a < b \<or> (a = b \<and> version_lt as bs))"

fun holds :: "string \<Rightarrow> nat list \<Rightarrow> nat list \<Rightarrow> bool" where
  "holds op a b =
     (if op = ''>='' then \<not> version_lt a b
      else if op = ''<='' then \<not> version_lt b a
      else if op = ''>'' then version_lt b a
      else if op = ''<'' then version_lt a b
      else if op = ''=='' then a = b
      else if op = ''!='' then a \<noteq> b
      else False)"

definition version_compare :: "string \<Rightarrow> string \<Rightarrow> bool" where
  "version_compare vstr1 vstr2 =
     (let op = takeWhile (\<lambda>c. c \<in> set ''<>=!'') vstr2;
          rest = dropWhile (\<lambda>c. c \<in> set ''<>=!'') vstr2
      in case (parse_version vstr1, parse_version rest) of
           (Some a, Some b) \<Rightarrow> holds op a b
         | _ \<Rightarrow> False)"

definition openmp_flags :: "string \<Rightarrow> string list" where
  "openmp_flags version =
     (if version_compare version ''>=15.0.0'' then [''-qopenmp''] else [''-openmp''])"

text \<open>The Windows-like class ignores its version.\<close>

definition VS_openmp_flags :: "string \<Rightarrow> string list" where
  "VS_openmp_flags version = [''/Qopenmp'']"

subsection \<open>Compile probes with diagnostics promoted to errors\<close>

text \<open>\<^verbatim>\<open>d.get(k, default)\<close> on a keyword dictionary, and the operator \<^verbatim>\<open>or\<close>.\<close>

definition dict_get :: "(string \<rightharpoonup> 'v) \<Rightarrow> string \<Rightarrow> 'v \<Rightarrow> 'v" where
  "dict_get d k dflt = (case d k of None \<Rightarrow> dflt | Some v \<Rightarrow> v)"

definition py_or :: "pyval \<Rightarrow> pyval \<Rightarrow> pyval" where
  "py_or x y = (if truthy x then x else y)"

text \<open>
  \<^verbatim>\<open>IntelGnuLikeCompiler.compiles(self, *args, **kwargs)\<close>. The method of the base class,
  \<^verbatim>\<open>super().compiles\<close>, is not part of the sources at hand and is a parameter; it
  receives the positional arguments unchanged and the keyword dictionary with the entry
  \<^verbatim>\<open>'extra_args'\<close> replaced. The new entry is a list literal whose first element is the
  caller's value itself.
\<close>

definition compiles ::
  "('a \<Rightarrow> (string \<rightharpoonup> pyval) \<Rightarrow> 'r) \<Rightarrow> 'a \<Rightarrow> (string \<rightharpoonup> pyval) \<Rightarrow> 'r" where
  "compiles super_compiles args kwargs =
     (let extra_args = py_or (dict_get kwargs ''extra_args'' PNone) (PList [])
      in super_compiles args
           (kwargs(''extra_args'' \<mapsto> PList [
              extra_args,
              PStr ''-diag-error'', PStr ''10006'',
              PStr ''-diag-error'', PStr ''10148'',
              PStr ''-diag-error'', PStr ''10155'',
              PStr ''-diag-error'', PStr ''10156'',
              PStr ''-diag-error'', PStr ''10157'',
              PStr ''-diag-error'', PStr ''10158'',
              PStr ''-diag-error'', PStr ''1292''])))"

text \<open>
  List objects live in a store: a reference is an index into it, a new object is
  appended, and \<^verbatim>\<open>extend\<close> updates the object in place. References handed in by a caller
  point into the store (\<open>r < length h\<close>).
\<close>

type_synonym heap = "string list list"

definition list_new :: "heap \<Rightarrow> string list \<Rightarrow> heap \<times> nat" where
  "list_new h xs = (h @ [xs], length h)"

definition list_copy :: "heap \<Rightarrow> nat \<Rightarrow> heap \<times> nat" where
  "list_copy h r = list_new h (h ! r)"

definition list_extend :: "heap \<Rightarrow> nat \<Rightarrow> string list \<Rightarrow> heap" where
  "list_extend h r ys = h[r := h ! r @ ys]"

text \<open>
  \<^verbatim>\<open>IntelVisualStudioLikeCompiler.compile(self, code, *, extra_args=None, **kwargs)\<close>.
  \<open>extra_args\<close> is \<open>None\<close> or a reference to a list of strings. The method of the base
  class, \<^verbatim>\<open>super().compile\<close>, is a parameter; it receives the store as the wrapper left
  it.
\<close>

definition compile ::
  "(heap \<Rightarrow> 'c \<Rightarrow> nat option \<Rightarrow> (string \<rightharpoonup> pyval) \<Rightarrow> 'r)
     \<Rightarrow> heap \<Rightarrow> 'c \<Rightarrow> nat option \<Rightarrow> (string \<rightharpoonup> pyval) \<Rightarrow> 'r" where
  "compile super_compile h code extra_args kwargs =
     (if dict_get kwargs ''mode'' (PStr ''compile'') \<noteq> PStr ''link'' then
        (case (case extra_args of Some r \<Rightarrow> list_copy h r | None \<Rightarrow> list_new h []) of
           (h1, extra_args1) \<Rightarrow>
             super_compile
               (list_extend h1 extra_args1 [
                  ''/Qdiag-error:10006'',
                  ''/Qdiag-error:10148'',
                  ''/Qdiag-error:10155'',
                  ''/Qdiag-error:10156'',
                  ''/Qdiag-error:10157'',
                  ''/Qdiag-error:10158''])
               code (Some extra_args1) kwargs)
      else super_compile h code extra_args kwargs)"

subsection \<open>Toolset version\<close>

text \<open>
  \<^verbatim>\<open>int(s)\<close> for a string, base ten. Whitespace around the literal is ignored: the
  characters that \<^verbatim>\<open>int\<close> strips are tab, line feed, vertical tab, form feed, carriage
  return and space, and beyond ASCII the spaces U+0085 and U+00A0; the separators U+001C
  to U+001F are not among them. A sign may come first, with nothing between it and the
  digits, and single underscores may stand between digits. A literal of more than
  \<open>int_max_str_digits\<close> digits is refused (Python 3.11 and later, with the default of
  \<^verbatim>\<open>sys.int_max_str_digits\<close>; leading zeros count, underscores, sign and whitespace do
  not). \<open>None\<close> stands for the \<open>ValueError\<close>. Characters are the code points below 256.
\<close>

definition is_space :: "char \<Rightarrow> bool" where
  "is_space c = (of_char c \<in> set [9, 10, 11, 12, 13, 32, 133, 160 :: nat])"

definition strip :: "string \<Rightarrow> string" where
  "strip s = rev (dropWhile is_space (rev (dropWhile is_space s)))"

fun digits :: "bool \<Rightarrow> string \<Rightarrow> nat \<Rightarrow> nat option" where
  "digits after_digit [] acc = (if after_digit then Some acc else None)"
| "digits after_digit (c # cs) acc =
     (if is_digit c then digits True cs (acc * 10 + digit_val c)
      else if c = CHR ''_'' \<and> after_digit then digits False cs acc
      else None)"

definition int_max_str_digits :: "nat" where
  "int_max_str_digits = 4300"

definition literal :: "string \<Rightarrow> nat option" where
  "literal ds =
     (if int_max_str_digits < length (filter is_digit ds) then None else digits False ds 0)"

definition py_int :: "string \<Rightarrow> int option" where
  "py_int s =
     (case strip s of
        [] \<Rightarrow> None
      | c # cs \<Rightarrow>
          if c = CHR ''+'' then map_option int (literal cs)
          else if c = CHR ''-'' then map_option (\<lambda>n. - int n) (literal cs)
          else map_option int (literal (c # cs)))"

text \<open>
  \<^verbatim>\<open>IntelVisualStudioLikeCompiler.get_toolset_version\<close>. Its three collaborators are not
  part of the sources at hand and are parameters: \<^verbatim>\<open>mesonlib.Popen_safe\<close> (returns the
  process, its output and its error stream, or raises), \<^verbatim>\<open>environment.search_version\<close>
  (returns a string, or raises) and \<^verbatim>\<open>self._calculate_toolset_version\<close>. The method has
  no \<^verbatim>\<open>try\<close>: an exception of a collaborator leaves it as it is. The unpacking
  \<^verbatim>\<open>v1, v2, *_ = ...\<close> raises \<open>ValueError\<close> on fewer than two components.
\<close>

definition get_toolset_version ::
  "(string list \<Rightarrow> exn + 'p \<times> string \<times> string) \<Rightarrow> (string \<Rightarrow> exn + string)
     \<Rightarrow> (int \<Rightarrow> exn + 'r) \<Rightarrow> exn + 'r" where
  "get_toolset_version Popen_safe search_version calculate_toolset_version =
     (case Popen_safe [''cl.exe''] of
        Inl e \<Rightarrow> Inl e
      | Inr (_, _, err) \<Rightarrow>
          (case search_version err of
             Inl e \<Rightarrow> Inl e
           | Inr s \<Rightarrow>
               (case str_split s CHR ''.'' of
                  v1 # v2 # _ \<Rightarrow>
                    (case py_int (v1 @ v2) of
                       None \<Rightarrow> Inl ValueError
                     | Some version \<Rightarrow> calculate_toolset_version version)
                | _ \<Rightarrow> Inl ValueError)))"

subsection \<open>What the base class receives\<close>

text \<open>
  The fixed flags of the two wrappers, as token lists, and the means to look at what a
  wrapper hands to the method of its base class: the base method is replaced by one that
  returns what it was given.
\<close>

definition gnu_diag_error_flags :: "string list" where
  "gnu_diag_error_flags =
    [''-diag-error'', ''10006'', ''-diag-error'', ''10148'', ''-diag-error'', ''10155'',
     ''-diag-error'', ''10156'', ''-diag-error'', ''10157'', ''-diag-error'', ''10158'',
     ''-diag-error'', ''1292'']"

definition vs_diag_error_flags :: "string list" where
  "vs_diag_error_flags =
    [''/Qdiag-error:10006'', ''/Qdiag-error:10148'', ''/Qdiag-error:10155'',
     ''/Qdiag-error:10156'', ''/Qdiag-error:10157'', ''/Qdiag-error:10158'']"

text \<open>The strings of a value, from left to right, with all nesting of lists removed.\<close>

fun flatten :: "pyval \<Rightarrow> string list" where
  "flatten PNone = []"
| "flatten (PStr s) = [s]"
| "flatten (PList xs) = concat (map flatten xs)"

text \<open>The entry \<^verbatim>\<open>'extra_args'\<close> that \<^verbatim>\<open>super().compiles\<close> finds in its keywords.\<close>

definition passed_extra_args :: "(string \<rightharpoonup> pyval) \<Rightarrow> pyval" where
  "passed_extra_args kwargs = compiles (\<lambda>args kw. dict_get kw ''extra_args'' PNone) () kwargs"

text \<open>The elements of the list behind an optional reference.\<close>

definition contents :: "heap \<Rightarrow> nat option \<Rightarrow> string list option" where
  "contents h extra_args = map_option (\<lambda>r. h ! r) extra_args"

text \<open>
  The store and the \<open>extra_args\<close> reference that \<^verbatim>\<open>super().compile\<close> receives, and the
  elements of the list it receives.
\<close>

definition VS_passed :: "heap \<Rightarrow> nat option \<Rightarrow> (string \<rightharpoonup> pyval) \<Rightarrow> heap \<times> nat option" where
  "VS_passed h extra_args kwargs = compile (\<lambda>h' code e kw. (h', e)) h () extra_args kwargs"

definition VS_passed_extra_args ::
  "heap \<Rightarrow> nat option \<Rightarrow> (string \<rightharpoonup> pyval) \<Rightarrow> string list option" where
  "VS_passed_extra_args h extra_args kwargs =
     (case VS_passed h extra_args kwargs of (h', e) \<Rightarrow> contents h' e)"

section \<open>Properties\<close>

subsection \<open>Flag table lookups\<close>

lemma keys_BUILD_ARGS: "map fst BUILD_ARGS = build_type_keys"
  by (simp add: BUILD_ARGS_def build_type_keys_def)

lemma keys_OPTIM_ARGS: "map fst OPTIM_ARGS = optimization_level_keys"
  by (simp add: OPTIM_ARGS_def optimization_level_keys_def)

lemma keys_VS_BUILD_ARGS: "map fst VS_BUILD_ARGS = build_type_keys"
  by (simp add: VS_BUILD_ARGS_def build_type_keys_def)

lemma keys_VS_OPTIM_ARGS: "map fst VS_OPTIM_ARGS = optimization_level_keys"
  by (simp add: VS_OPTIM_ARGS_def optimization_level_keys_def)

lemma subscript_absent: "k \<notin> set (map fst d) \<Longrightarrow> subscript d k = Inl (KeyError k)"
proof -
  assume "k \<notin> set (map fst d)"
  then have "map_of d k = None"
    by (simp add: map_of_eq_None_iff)
  then show ?thesis
    by (simp add: subscript_def)
qed

lemma subscript_present: "k \<in> set (map fst d) \<Longrightarrow> \<exists>v. subscript d k = Inr v \<and> (k, v) \<in> set d"
proof -
  assume "k \<in> set (map fst d)"
  then have "map_of d k \<noteq> None"
    by (simp add: map_of_eq_None_iff)
  then obtain v where v: "map_of d k = Some v"
    by blast
  then have "(k, v) \<in> set d"
    by (rule map_of_SomeD)
  with v show ?thesis
    by (simp add: subscript_def)
qed

text \<open>
  Claim C5, as amended. For every string key outside the closed key sets,
  \<^verbatim>\<open>get_buildtype_args\<close> and \<^verbatim>\<open>get_optimization_args\<close> of both adapters fail with
  Python's \<open>KeyError\<close> carrying the key (the module has no \<open>ConfigurationError\<close>);
  none of them returns a default or empty flag list.
\<close>

theorem C5_unknown_key_raises_KeyError:
  "(k \<notin> set build_type_keys \<longrightarrow>
      get_buildtype_args k = Inl (KeyError k) \<and> VS_get_buildtype_args k = Inl (KeyError k))
   \<and> (k \<notin> set optimization_level_keys \<longrightarrow>
      get_optimization_args k = Inl (KeyError k) \<and> VS_get_optimization_args k = Inl (KeyError k))"
  using subscript_absent [of k BUILD_ARGS] subscript_absent [of k VS_BUILD_ARGS]
    subscript_absent [of k OPTIM_ARGS] subscript_absent [of k VS_OPTIM_ARGS]
  by (simp only: keys_BUILD_ARGS keys_OPTIM_ARGS keys_VS_BUILD_ARGS keys_VS_OPTIM_ARGS
      get_buildtype_args_def get_optimization_args_def VS_get_buildtype_args_def
      VS_get_optimization_args_def) blast

theorem C5_unknown_key_witness:
  "''fast'' \<notin> set build_type_keys \<and> ''fast'' \<notin> set optimization_level_keys
   \<and> get_buildtype_args ''fast'' = Inl (KeyError ''fast'')
   \<and> VS_get_buildtype_args ''fast'' = Inl (KeyError ''fast'')
   \<and> get_optimization_args ''fast'' = Inl (KeyError ''fast'')
   \<and> VS_get_optimization_args ''fast'' = Inl (KeyError ''fast'')"
  using C5_unknown_key_raises_KeyError [of "''fast''"]
  by (simp add: build_type_keys_def optimization_level_keys_def)

text \<open>
  Claim C5, as stated, fails: the key \<^verbatim>\<open>'fast'\<close> is in neither key set, and the lookups
  raise \<open>KeyError\<close>, which is not \<open>ConfigurationError\<close>.
\<close>

theorem C5_counterexample:
  "''fast'' \<notin> set build_type_keys \<and> ''fast'' \<notin> set optimization_level_keys
   \<and> get_buildtype_args ''fast'' \<noteq> Inl ConfigurationError
   \<and> VS_get_buildtype_args ''fast'' \<noteq> Inl ConfigurationError
   \<and> get_optimization_args ''fast'' \<noteq> Inl ConfigurationError
   \<and> VS_get_optimization_args ''fast'' \<noteq> Inl ConfigurationError"
  by (simp add: build_type_keys_def optimization_level_keys_def get_buildtype_args_def
      get_optimization_args_def VS_get_buildtype_args_def VS_get_optimization_args_def
      subscript_def BUILD_ARGS_def OPTIM_ARGS_def VS_BUILD_ARGS_def VS_OPTIM_ARGS_def)

text \<open>
  Claim C6. For each of the six build-type keys and each of the six optimization-level
  keys, \<^verbatim>\<open>get_buildtype_args\<close> and \<^verbatim>\<open>get_optimization_args\<close> of both adapters return a
  flag list (the entry of the table) and do not fail.
\<close>

theorem C6_known_key_returns_flags:
  "(k \<in> set build_type_keys \<longrightarrow>
      (\<exists>fl. get_buildtype_args k = Inr fl \<and> (k, fl) \<in> set BUILD_ARGS)
      \<and> (\<exists>fl. VS_get_buildtype_args k = Inr fl \<and> (k, fl) \<in> set VS_BUILD_ARGS))
   \<and> (k \<in> set optimization_level_keys \<longrightarrow>
      (\<exists>fl. get_optimization_args k = Inr fl \<and> (k, fl) \<in> set OPTIM_ARGS)
      \<and> (\<exists>fl. VS_get_optimization_args k = Inr fl \<and> (k, fl) \<in> set VS_OPTIM_ARGS))"
  using subscript_present [of k BUILD_ARGS] subscript_present [of k VS_BUILD_ARGS]
    subscript_present [of k OPTIM_ARGS] subscript_present [of k VS_OPTIM_ARGS]
  by (simp only: keys_BUILD_ARGS keys_OPTIM_ARGS keys_VS_BUILD_ARGS keys_VS_OPTIM_ARGS
      get_buildtype_args_def get_optimization_args_def VS_get_buildtype_args_def
      VS_get_optimization_args_def) blast

theorem C6_known_key_witness:
  "''release'' \<in> set build_type_keys \<and> ''2'' \<in> set optimization_level_keys
   \<and> (\<exists>fl. get_buildtype_args ''release'' = Inr fl)
   \<and> (\<exists>fl. VS_get_buildtype_args ''release'' = Inr fl)
   \<and> (\<exists>fl. get_optimization_args ''2'' = Inr fl)
   \<and> (\<exists>fl. VS_get_optimization_args ''2'' = Inr fl)"
proof -
  have b: "''release'' \<in> set build_type_keys"
    by (simp add: build_type_keys_def)
  have l: "''2'' \<in> set optimization_level_keys"
    by (simp add: optimization_level_keys_def)
  from b l C6_known_key_returns_flags [of "''release''"] C6_known_key_returns_flags [of "''2''"]
  show ?thesis
    by blast
qed


subsection \<open>Precompiled header names\<close>

lemma rfind_absent: "c \<notin> set f \<Longrightarrow> rfind f c = - 1"
  by (induction f) (auto simp: Let_def)

lemma rfind_last: "c \<notin> set f \<Longrightarrow> rfind (d @ c # f) c = int (length d)"
  by (induction d) (auto simp: Let_def rfind_absent)

lemma basename_join: "CHR ''/'' \<notin> set f \<Longrightarrow> basename (d @ ''/'' @ f) = f"
proof -
  assume "CHR ''/'' \<notin> set f"
  then have "rfind (d @ CHR ''/'' # f) CHR ''/'' = int (length d)"
    by (rule rfind_last)
  moreover have "nat (int (length d) + 1) = Suc (length d)"
    by simp
  ultimately show ?thesis
    by (simp add: basename_def)
qed

lemma basename_plain: "CHR ''/'' \<notin> set f \<Longrightarrow> basename f = f"
  by (simp add: basename_def rfind_absent Let_def)

text \<open>
  Claim C8. \<^verbatim>\<open>get_pch_name\<close> depends on the header name alone: it returns the basename
  of the header, a dot and the suffix of \<^verbatim>\<open>get_pch_suffix\<close>, which is \<^verbatim>\<open>'pchi'\<close>. So
  \<^verbatim>\<open>get_pch_name("foo.h")\<close> is \<^verbatim>\<open>"foo.h.pchi"\<close>, and for a file name \<open>f\<close> without a
  slash the result is \<open>f.pchi\<close> whatever directory \<open>d\<close> stands in front of it.
\<close>

theorem C8_pch_name_of_basename:
  "get_pch_name header_name = basename header_name @ ''.'' @ get_pch_suffix
   \<and> get_pch_suffix = ''pchi''
   \<and> get_pch_name ''foo.h'' = ''foo.h.pchi''
   \<and> (CHR ''/'' \<notin> set f \<longrightarrow>
        get_pch_name f = f @ ''.pchi'' \<and> get_pch_name (d @ ''/'' @ f) = f @ ''.pchi'')"
proof (intro conjI impI)
  show "get_pch_name header_name = basename header_name @ ''.'' @ get_pch_suffix"
    by (simp add: get_pch_name_def)
  show "get_pch_suffix = ''pchi''"
    by (simp add: get_pch_suffix_def)
  have "CHR ''/'' \<notin> set ''foo.h''"
    by simp
  then have "basename ''foo.h'' = ''foo.h''"
    by (rule basename_plain)
  then show "get_pch_name ''foo.h'' = ''foo.h.pchi''"
    by (simp add: get_pch_name_def get_pch_suffix_def)
  show "get_pch_name f = f @ ''.pchi''" if "CHR ''/'' \<notin> set f"
    using basename_plain [OF that] by (simp add: get_pch_name_def get_pch_suffix_def)
  show "get_pch_name (d @ ''/'' @ f) = f @ ''.pchi''" if "CHR ''/'' \<notin> set f"
    using basename_join [OF that, of d] by (simp add: get_pch_name_def get_pch_suffix_def)
qed

theorem C8_pch_name_witness:
  "CHR ''/'' \<notin> set ''foo.h''
   \<and> get_pch_name ''foo.h'' = ''foo.h'' @ ''.pchi''
   \<and> get_pch_name (''/usr/include'' @ ''/'' @ ''foo.h'') = ''foo.h'' @ ''.pchi''"
proof -
  have h: "CHR ''/'' \<notin> set ''foo.h''"
    by simp
  from h C8_pch_name_of_basename [of "''foo.h''" "''foo.h''" "''/usr/include''"] show ?thesis
    by blast
qed

subsection \<open>OpenMP flags\<close>

lemma version_compare_ge_15:
  "version_compare v ''>=15.0.0'' =
     (case parse_version v of None \<Rightarrow> False | Some ns \<Rightarrow> \<not> version_lt ns [15, 0, 0])"
proof -
  have "parse_version ''15.0.0'' = Some [15, 0, 0]"
    by (simp add: parse_version_def is_digit_def digit_val_def)
  then show ?thesis
    by (simp add: version_compare_def split: option.splits)
qed

text \<open>
  Claim C7. For a compiler version with the numeric components \<open>ns\<close>,
  \<^verbatim>\<open>IntelGnuLikeCompiler.openmp_flags\<close> returns the legacy spelling \<^verbatim>\<open>['-openmp']\<close> when
  the version is strictly below 15.0.0 and the modern spelling \<^verbatim>\<open>['-qopenmp']\<close> when it
  is 15.0.0 or above; a version of three components \<open>a.b.c\<close> is below 15.0.0 exactly
  when \<open>a < 15\<close>. Version 14.9.9 gets the legacy spelling and 15.0.0 itself the modern
  one. \<^verbatim>\<open>IntelVisualStudioLikeCompiler.openmp_flags\<close> returns \<^verbatim>\<open>['/Qopenmp']\<close> for every
  version.
\<close>

theorem C7_openmp_flags_threshold:
  "(parse_version v = Some ns \<longrightarrow>
      openmp_flags v = (if version_lt ns [15, 0, 0] then [''-openmp''] else [''-qopenmp'']))
   \<and> (version_lt [a, b, c] [15, 0, 0] \<longleftrightarrow> a < 15)
   \<and> openmp_flags ''14.9.9'' = [''-openmp'']
   \<and> openmp_flags ''15.0.0'' = [''-qopenmp'']
   \<and> VS_openmp_flags v' = [''/Qopenmp'']"
proof (intro conjI impI)
  show "openmp_flags v = (if version_lt ns [15, 0, 0] then [''-openmp''] else [''-qopenmp''])"
    if "parse_version v = Some ns"
    using that by (simp add: openmp_flags_def version_compare_ge_15)
  show "version_lt [a, b, c] [15, 0, 0] \<longleftrightarrow> a < 15"
    by auto
  have "parse_version ''14.9.9'' = Some [14, 9, 9]"
    by (simp add: parse_version_def is_digit_def digit_val_def)
  then show "openmp_flags ''14.9.9'' = [''-openmp'']"
    by (simp add: openmp_flags_def version_compare_ge_15)
  have "parse_version ''15.0.0'' = Some [15, 0, 0]"
    by (simp add: parse_version_def is_digit_def digit_val_def)
  then show "openmp_flags ''15.0.0'' = [''-qopenmp'']"
    by (simp add: openmp_flags_def version_compare_ge_15)
  show "VS_openmp_flags v' = [''/Qopenmp'']"
    by (simp add: VS_openmp_flags_def)
qed

theorem C7_openmp_flags_witness:
  "parse_version ''19.0.4'' = Some [19, 0, 4] \<and> openmp_flags ''19.0.4'' = [''-qopenmp'']
   \<and> parse_version ''14.0.3'' = Some [14, 0, 3] \<and> openmp_flags ''14.0.3'' = [''-openmp'']"
proof -
  have a: "parse_version ''19.0.4'' = Some [19, 0, 4]"
    by (simp add: parse_version_def is_digit_def digit_val_def)
  have b: "parse_version ''14.0.3'' = Some [14, 0, 3]"
    by (simp add: parse_version_def is_digit_def digit_val_def)
  from a b C7_openmp_flags_threshold [of "''19.0.4''" "[19, 0, 4]"]
    C7_openmp_flags_threshold [of "''14.0.3''" "[14, 0, 3]"]
  show ?thesis by simp
qed

subsection \<open>Compile probes\<close>

lemma flatten_strs: "concat (map (flatten \<circ> PStr) ts) = ts"
  by (induction ts) simp_all

lemma compiles_delegates:
  "compiles super_compiles args kwargs =
     super_compiles args (kwargs(''extra_args'' \<mapsto>
       PList (py_or (dict_get kwargs ''extra_args'' PNone) (PList [])
              # map PStr gnu_diag_error_flags)))"
  by (simp add: compiles_def gnu_diag_error_flags_def Let_def)

lemma compile_compile_mode:
  "dict_get kwargs ''mode'' (PStr ''compile'') \<noteq> PStr ''link'' \<Longrightarrow>
   compile super_compile h code extra_args kwargs =
     super_compile
       (h @ [(case extra_args of None \<Rightarrow> [] | Some r \<Rightarrow> h ! r) @ vs_diag_error_flags])
       code (Some (length h)) kwargs"
  by (cases extra_args)
    (simp_all add: compile_def list_new_def list_copy_def list_extend_def vs_diag_error_flags_def)

lemma compile_link_mode:
  "dict_get kwargs ''mode'' (PStr ''compile'') = PStr ''link'' \<Longrightarrow>
   compile super_compile h code extra_args kwargs = super_compile h code extra_args kwargs"
  by (simp add: compile_def)

text \<open>
  Claim C1, as amended. \<^verbatim>\<open>IntelGnuLikeCompiler.compiles\<close> hands to the base class a list
  whose first element is the caller's \<^verbatim>\<open>extra_args\<close> value itself, as one nested element
  (the empty list when the caller gave none, \<^verbatim>\<open>None\<close> or an empty value), followed by the
  fourteen fixed \<^verbatim>\<open>-diag-error\<close> tokens; when the caller gave a list of tokens, the tokens
  of the handed-down value, nesting removed, are the caller's tokens in their order
  followed by the fixed ones. \<^verbatim>\<open>IntelVisualStudioLikeCompiler.compile\<close> hands down, outside
  link mode, a list of the caller's tokens in their order followed by the six fixed
  \<^verbatim>\<open>/Qdiag-error\<close> flags, and in link mode the caller's argument as it is.
\<close>

theorem C1_extra_args_nested_then_flags:
  "passed_extra_args kwargs =
     PList (py_or (dict_get kwargs ''extra_args'' PNone) (PList [])
            # map PStr gnu_diag_error_flags)
   \<and> (kwargs ''extra_args'' = Some (PList (map PStr ts)) \<longrightarrow>
        flatten (passed_extra_args kwargs) = ts @ gnu_diag_error_flags)
   \<and> (kwargs ''extra_args'' = None \<or> kwargs ''extra_args'' = Some PNone \<longrightarrow>
        passed_extra_args kwargs = PList (PList [] # map PStr gnu_diag_error_flags))
   \<and> (dict_get kw ''mode'' (PStr ''compile'') \<noteq> PStr ''link'' \<longrightarrow>
        VS_passed_extra_args h extra_args kw =
          Some ((case extra_args of None \<Rightarrow> [] | Some r \<Rightarrow> h ! r) @ vs_diag_error_flags))
   \<and> (dict_get kw ''mode'' (PStr ''compile'') = PStr ''link'' \<longrightarrow>
        VS_passed_extra_args h extra_args kw = contents h extra_args)"
proof (intro conjI impI)
  show p: "passed_extra_args kwargs =
     PList (py_or (dict_get kwargs ''extra_args'' PNone) (PList [])
            # map PStr gnu_diag_error_flags)"
    by (simp add: passed_extra_args_def compiles_delegates dict_get_def)
  show "flatten (passed_extra_args kwargs) = ts @ gnu_diag_error_flags"
    if "kwargs ''extra_args'' = Some (PList (map PStr ts))"
    using that by (simp add: p dict_get_def py_or_def flatten_strs)
  show "passed_extra_args kwargs = PList (PList [] # map PStr gnu_diag_error_flags)"
    if "kwargs ''extra_args'' = None \<or> kwargs ''extra_args'' = Some PNone"
    using that by (auto simp add: p dict_get_def py_or_def)
  show "VS_passed_extra_args h extra_args kw =
          Some ((case extra_args of None \<Rightarrow> [] | Some r \<Rightarrow> h ! r) @ vs_diag_error_flags)"
    if "dict_get kw ''mode'' (PStr ''compile'') \<noteq> PStr ''link''"
    using that
    by (simp add: VS_passed_extra_args_def VS_passed_def compile_compile_mode contents_def)
  show "VS_passed_extra_args h extra_args kw = contents h extra_args"
    if "dict_get kw ''mode'' (PStr ''compile'') = PStr ''link''"
    using that by (simp add: VS_passed_extra_args_def VS_passed_def compile_link_mode)
qed

theorem C1_extra_args_witness:
  "flatten (passed_extra_args [''extra_args'' \<mapsto> PList (map PStr [''-Wall'', ''-O2''])])
     = [''-Wall'', ''-O2''] @ gnu_diag_error_flags
   \<and> passed_extra_args Map.empty = PList (PList [] # map PStr gnu_diag_error_flags)
   \<and> VS_passed_extra_args [[''/W3'', ''/nologo'']] (Some 0) Map.empty
        = Some ([''/W3'', ''/nologo''] @ vs_diag_error_flags)
   \<and> VS_passed_extra_args [[''/W3'', ''/nologo'']] (Some 0) [''mode'' \<mapsto> PStr ''link'']
        = Some [''/W3'', ''/nologo'']"
  using C1_extra_args_nested_then_flags
      [of "[''extra_args'' \<mapsto> PList (map PStr [''-Wall'', ''-O2''])]"
        "[''-Wall'', ''-O2'']" Map.empty "[[''/W3'', ''/nologo'']]" "Some 0"]
    C1_extra_args_nested_then_flags
      [of Map.empty "[]" "[''mode'' \<mapsto> PStr ''link'']" "[[''/W3'', ''/nologo'']]" "Some 0"]
  by (simp add: dict_get_def contents_def py_or_def flatten_strs)

text \<open>
  Claim C1, as stated, fails for the POSIX-like wrapper: called with
  \<^verbatim>\<open>extra_args=['-Wall']\<close>, it hands down \<^verbatim>\<open>[['-Wall'], '-diag-error', '10006', ...]\<close>, a
  list that holds the caller's list as its first element, and not the caller's token
  followed by the fixed ones.
\<close>

theorem C1_counterexample:
  "passed_extra_args [''extra_args'' \<mapsto> PList [PStr ''-Wall'']] =
     PList (PList [PStr ''-Wall''] # map PStr gnu_diag_error_flags)
   \<and> passed_extra_args [''extra_args'' \<mapsto> PList [PStr ''-Wall'']] \<noteq>
     PList (map PStr ([''-Wall''] @ gnu_diag_error_flags))"
  by (simp add: passed_extra_args_def compiles_def dict_get_def py_or_def
      gnu_diag_error_flags_def)

text \<open>
  Claim C2, as amended. \<^verbatim>\<open>IntelVisualStudioLikeCompiler.compile\<close> appends the six
  \<^verbatim>\<open>/Qdiag-error\<close> flags exactly when the mode is not \<^verbatim>\<open>'link'\<close>, a missing mode counting
  as \<^verbatim>\<open>'compile'\<close>. Outside link mode the list handed down is the caller's list (empty
  for \<^verbatim>\<open>None\<close>) followed by all six flags. In link mode the store and the argument are
  handed down as the caller gave them, so the list holds a promotion flag only where the
  caller's own list did.
\<close>

theorem C2_promotion_only_outside_link_mode:
  "(kw ''mode'' = None \<longrightarrow> dict_get kw ''mode'' (PStr ''compile'') = PStr ''compile'')
   \<and> (dict_get kw ''mode'' (PStr ''compile'') \<noteq> PStr ''link'' \<longrightarrow>
        (\<exists>xs. VS_passed_extra_args h extra_args kw = Some xs
           \<and> xs = (case extra_args of None \<Rightarrow> [] | Some r \<Rightarrow> h ! r) @ vs_diag_error_flags
           \<and> set vs_diag_error_flags \<subseteq> set xs))
   \<and> (dict_get kw ''mode'' (PStr ''compile'') = PStr ''link'' \<longrightarrow>
        VS_passed h extra_args kw = (h, extra_args)
        \<and> VS_passed_extra_args h extra_args kw = contents h extra_args)
   \<and> length vs_diag_error_flags = 6 \<and> distinct vs_diag_error_flags"
proof (intro conjI impI)
  show "dict_get kw ''mode'' (PStr ''compile'') = PStr ''compile''" if "kw ''mode'' = None"
    using that by (simp add: dict_get_def)
  show "\<exists>xs. VS_passed_extra_args h extra_args kw = Some xs
           \<and> xs = (case extra_args of None \<Rightarrow> [] | Some r \<Rightarrow> h ! r) @ vs_diag_error_flags
           \<and> set vs_diag_error_flags \<subseteq> set xs"
    if "dict_get kw ''mode'' (PStr ''compile'') \<noteq> PStr ''link''"
    using that
    by (simp add: VS_passed_extra_args_def VS_passed_def compile_compile_mode contents_def)
  show "VS_passed h extra_args kw = (h, extra_args)"
    if "dict_get kw ''mode'' (PStr ''compile'') = PStr ''link''"
    using that by (simp add: VS_passed_def compile_link_mode)
  show "VS_passed_extra_args h extra_args kw = contents h extra_args"
    if "dict_get kw ''mode'' (PStr ''compile'') = PStr ''link''"
    using that by (simp add: VS_passed_extra_args_def VS_passed_def compile_link_mode)
  show "length vs_diag_error_flags = 6"
    by (simp add: vs_diag_error_flags_def)
  show "distinct vs_diag_error_flags"
    by (simp add: vs_diag_error_flags_def)
qed

theorem C2_promotion_witness:
  "VS_passed_extra_args [[''/W3'']] (Some 0) Map.empty = Some ([''/W3''] @ vs_diag_error_flags)
   \<and> VS_passed_extra_args [[''/W3'']] (Some 0) [''mode'' \<mapsto> PStr ''compile'']
        = Some ([''/W3''] @ vs_diag_error_flags)
   \<and> VS_passed [[''/W3'']] (Some 0) [''mode'' \<mapsto> PStr ''link''] = ([[''/W3'']], Some 0)
   \<and> VS_passed_extra_args [[''/W3'']] (Some 0) [''mode'' \<mapsto> PStr ''link''] = Some [''/W3'']"
  using C2_promotion_only_outside_link_mode [of Map.empty "[[''/W3'']]" "Some 0"]
    C2_promotion_only_outside_link_mode
      [of "[''mode'' \<mapsto> PStr ''compile'']" "[[''/W3'']]" "Some 0"]
    C2_promotion_only_outside_link_mode
      [of "[''mode'' \<mapsto> PStr ''link'']" "[[''/W3'']]" "Some 0"]
  by (simp add: dict_get_def contents_def)

text \<open>
  Claim C2, as stated, fails in its link-mode part: called in link mode with
  \<^verbatim>\<open>extra_args=['/Qdiag-error:10006']\<close>, the wrapper hands that list down, and it holds
  one of the promotion flags.
\<close>

theorem C2_counterexample:
  "dict_get [''mode'' \<mapsto> PStr ''link''] ''mode'' (PStr ''compile'') = PStr ''link''
   \<and> VS_passed_extra_args [[''/Qdiag-error:10006'']] (Some 0) [''mode'' \<mapsto> PStr ''link'']
        = Some [''/Qdiag-error:10006'']
   \<and> ''/Qdiag-error:10006'' \<in> set vs_diag_error_flags"
  by (simp add: VS_passed_extra_args_def VS_passed_def compile_def dict_get_def contents_def
      vs_diag_error_flags_def)

text \<open>
  Claim C9. \<^verbatim>\<open>IntelVisualStudioLikeCompiler.compile\<close> does not change the list the caller
  passed, nor any other list that existed before the call: outside link mode it hands to
  the base class a new list object, the copy it extended, and every object of the store
  before the call is in the store after the call with the elements it had. This holds for
  every method of the base class that itself leaves the existing lists as they are.
\<close>

theorem C9_caller_list_unchanged:
  assumes frame: "\<And>h1 c e k. take (length h1) (fst (super_compile h1 c e k)) = h1"
  shows "take (length h) (fst (compile super_compile h code extra_args kwargs)) = h
    \<and> (dict_get kwargs ''mode'' (PStr ''compile'') \<noteq> PStr ''link'' \<longrightarrow>
         VS_passed h extra_args kwargs =
           (h @ [(case extra_args of None \<Rightarrow> [] | Some r \<Rightarrow> h ! r) @ vs_diag_error_flags],
            Some (length h)))"
proof (intro conjI impI)
  show "take (length h) (fst (compile super_compile h code extra_args kwargs)) = h"
  proof (cases "dict_get kwargs ''mode'' (PStr ''compile'') = PStr ''link''")
    case True
    then show ?thesis
      by (simp add: compile_link_mode frame)
  next
    case False
    let ?h1 = "h @ [(case extra_args of None \<Rightarrow> [] | Some r \<Rightarrow> h ! r) @ vs_diag_error_flags]"
    let ?h2 = "fst (super_compile ?h1 code (Some (length h)) kwargs)"
    have "take (length ?h1) ?h2 = ?h1"
      by (rule frame)
    then have "take (length h) (take (length ?h1) ?h2) = take (length h) ?h1"
      by simp
    then have "take (length h) ?h2 = h"
      by (simp add: min_def)
    with False show ?thesis
      by (simp add: compile_compile_mode)
  qed
  show "VS_passed h extra_args kwargs =
           (h @ [(case extra_args of None \<Rightarrow> [] | Some r \<Rightarrow> h ! r) @ vs_diag_error_flags],
            Some (length h))"
    if "dict_get kwargs ''mode'' (PStr ''compile'') \<noteq> PStr ''link''"
    using that by (simp add: VS_passed_def compile_compile_mode)
qed

theorem C9_caller_list_witness:
  "take (length [[''/W3'']])
     (fst (compile (\<lambda>h c e k. (h, e)) [[''/W3'']] () (Some 0) Map.empty)) = [[''/W3'']]
   \<and> VS_passed [[''/W3'']] (Some 0) Map.empty
       = ([[''/W3''], [''/W3''] @ vs_diag_error_flags], Some 1)"
proof -
  have frame: "\<And>h1 c e k. take (length h1) (fst ((\<lambda>h c e k. (h, e)) h1 c e k)) = h1"
    by simp
  have mode: "dict_get Map.empty ''mode'' (PStr ''compile'') \<noteq> PStr ''link''"
    by (simp add: dict_get_def)
  from mode C9_caller_list_unchanged [of "\<lambda>h c e k. (h, e)" "[[''/W3'']]" "()" "Some 0" Map.empty,
      OF frame]
  show ?thesis
    by simp
qed

subsection \<open>Toolset version\<close>

lemma py_int_examples:
  "py_int ''1916'' = Some 1916"
  "py_int '' +1_9_16  '' = Some 1916"
  "py_int ''-007'' = Some (- 7)"
  "py_int ''1__9'' = None"
  "py_int ''19_'' = None"
  "py_int ''+ 19'' = None"
  "py_int [] = None"
  "py_int (CHR 0x1C # ''1916'') = None"
  "py_int (CHR 0xA0 # ''1916'' @ [CHR 0x85]) = Some 1916"
  by (simp_all add: py_int_def strip_def literal_def int_max_str_digits_def is_space_def
      is_digit_def digit_val_def)

text \<open>
  Claim C3. \<^verbatim>\<open>get_toolset_version\<close> splits the version string that the parser extracts
  from the banner at its dots, reads the first two components joined as an integer, and
  returns what \<^verbatim>\<open>_calculate_toolset_version\<close> returns for that integer. For a banner
  from which the parser extracts \<^verbatim>\<open>'19.16.27034'\<close> the components are \<^verbatim>\<open>'19'\<close>,
  \<^verbatim>\<open>'16'\<close> and \<^verbatim>\<open>'27034'\<close>, the integer is 1916, and the result is what
  \<^verbatim>\<open>_calculate_toolset_version\<close> returns for 1916.
\<close>

theorem C3_toolset_version_of_banner:
  "(Popen_safe [''cl.exe''] = Inr (p, out, err) \<and> search_version err = Inr s
      \<and> str_split s CHR ''.'' = va # vb # rest \<and> py_int (va @ vb) = Some n \<longrightarrow>
      get_toolset_version Popen_safe search_version calculate_toolset_version
        = calculate_toolset_version n)
   \<and> (Popen_safe [''cl.exe''] = Inr (p, out, err)
      \<and> search_version err = Inr ''19.16.27034'' \<longrightarrow>
      get_toolset_version Popen_safe search_version calculate_toolset_version
        = calculate_toolset_version 1916)
   \<and> str_split ''19.16.27034'' CHR ''.'' = [''19'', ''16'', ''27034'']
   \<and> py_int (''19'' @ ''16'') = Some 1916"
proof (intro conjI impI)
  show "get_toolset_version Popen_safe search_version calculate_toolset_version
        = calculate_toolset_version n"
    if "Popen_safe [''cl.exe''] = Inr (p, out, err) \<and> search_version err = Inr s
      \<and> str_split s CHR ''.'' = va # vb # rest \<and> py_int (va @ vb) = Some n"
    using that by (simp add: get_toolset_version_def)
  show s: "str_split ''19.16.27034'' CHR ''.'' = [''19'', ''16'', ''27034'']"
    by simp
  show i: "py_int (''19'' @ ''16'') = Some 1916"
    by (simp add: py_int_examples)
  show "get_toolset_version Popen_safe search_version calculate_toolset_version
        = calculate_toolset_version 1916"
    if "Popen_safe [''cl.exe''] = Inr (p, out, err)
      \<and> search_version err = Inr ''19.16.27034''"
    using that s i by (simp add: get_toolset_version_def)
qed

theorem C3_toolset_version_witness:
  "get_toolset_version
     (\<lambda>cmd. if cmd = [''cl.exe'']
            then Inr ((), [], ''Compiler Version 19.16.27034 for x64'')
            else Inl FileNotFoundError)
     (\<lambda>text. Inr ''19.16.27034'')
     (\<lambda>version. Inr version)
   = Inr 1916
   \<and> get_toolset_version
     (\<lambda>cmd. if cmd = [''cl.exe'']
            then Inr ((), [], ''Compiler Version 14.29.30133 for x86'')
            else Inl FileNotFoundError)
     (\<lambda>text. Inr ''14.29.30133'')
     (\<lambda>version. Inr version)
   = Inr 1429"
proof -
  let ?P = "\<lambda>cmd. if cmd = [''cl.exe'']
            then Inr ((), [], ''Compiler Version 19.16.27034 for x64'')
            else (Inl FileNotFoundError :: exn + unit \<times> string \<times> string)"
  let ?S = "\<lambda>text :: string. (Inr ''19.16.27034'' :: exn + string)"
  let ?Q = "\<lambda>cmd. if cmd = [''cl.exe'']
            then Inr ((), [], ''Compiler Version 14.29.30133 for x86'')
            else (Inl FileNotFoundError :: exn + unit \<times> string \<times> string)"
  let ?T = "\<lambda>text :: string. (Inr ''14.29.30133'' :: exn + string)"
  let ?calc = "\<lambda>version :: int. (Inr version :: exn + int)"
  have split: "str_split ''14.29.30133'' CHR ''.'' = ''14'' # ''29'' # [''30133'']"
    by simp
  have num: "py_int (''14'' @ ''29'') = Some 1429"
    by (simp add: py_int_def strip_def literal_def int_max_str_digits_def is_space_def
        is_digit_def digit_val_def)
  have a: "get_toolset_version ?P ?S ?calc = Inr 1916"
    using C3_toolset_version_of_banner
      [where Popen_safe = ?P and p = "()" and out = "[]"
        and err = "''Compiler Version 19.16.27034 for x64''" and search_version = ?S
        and calculate_toolset_version = ?calc]
    by simp
  have b: "get_toolset_version ?Q ?T ?calc = Inr 1429"
    using split num C3_toolset_version_of_banner
      [where Popen_safe = ?Q and p = "()" and out = "[]"
        and err = "''Compiler Version 14.29.30133 for x86''" and search_version = ?T
        and s = "''14.29.30133''" and va = "''14''" and vb = "''29''" and rest = "[''30133'']"
        and n = 1429 and calculate_toolset_version = ?calc]
    by simp
  from a b show ?thesis
    by blast
qed

text \<open>
  Claim C4, as amended. \<^verbatim>\<open>get_toolset_version\<close> has no exception of its own kind: when
  running \<^verbatim>\<open>cl.exe\<close> raises (the binary is missing) or the version parser raises, that
  exception leaves the method unchanged; when the parser's string has fewer than two
  components between dots, or its first two components joined are not an integer
  literal, the method fails with Python's \<open>ValueError\<close>. In each of these cases it fails
  and returns no value.
\<close>

theorem C4_failures_propagate:
  "(Popen_safe [''cl.exe''] = Inl e \<longrightarrow>
      get_toolset_version Popen_safe search_version calculate_toolset_version = Inl e)
   \<and> (Popen_safe [''cl.exe''] = Inr (p, out, err) \<and> search_version err = Inl e \<longrightarrow>
      get_toolset_version Popen_safe search_version calculate_toolset_version = Inl e)
   \<and> (Popen_safe [''cl.exe''] = Inr (p, out, err) \<and> search_version err = Inr s
        \<and> length (str_split s CHR ''.'') < 2 \<longrightarrow>
      get_toolset_version Popen_safe search_version calculate_toolset_version = Inl ValueError)
   \<and> (Popen_safe [''cl.exe''] = Inr (p, out, err) \<and> search_version err = Inr s
        \<and> str_split s CHR ''.'' = va # vb # rest \<and> py_int (va @ vb) = None \<longrightarrow>
      get_toolset_version Popen_safe search_version calculate_toolset_version = Inl ValueError)"
proof (intro conjI impI)
  show "get_toolset_version Popen_safe search_version calculate_toolset_version = Inl e"
    if "Popen_safe [''cl.exe''] = Inl e"
    using that by (simp add: get_toolset_version_def)
  show "get_toolset_version Popen_safe search_version calculate_toolset_version = Inl e"
    if "Popen_safe [''cl.exe''] = Inr (p, out, err) \<and> search_version err = Inl e"
    using that by (simp add: get_toolset_version_def)
  show "get_toolset_version Popen_safe search_version calculate_toolset_version = Inl ValueError"
    if "Popen_safe [''cl.exe''] = Inr (p, out, err) \<and> search_version err = Inr s
        \<and> length (str_split s CHR ''.'') < 2"
  proof (cases "str_split s CHR ''.''")
    case Nil
    with that show ?thesis
      by (simp add: get_toolset_version_def)
  next
    case (Cons w ws)
    with that have "ws = []"
      by simp
    with Cons that show ?thesis
      by (simp add: get_toolset_version_def)
  qed
  show "get_toolset_version Popen_safe search_version calculate_toolset_version = Inl ValueError"
    if "Popen_safe [''cl.exe''] = Inr (p, out, err) \<and> search_version err = Inr s
        \<and> str_split s CHR ''.'' = va # vb # rest \<and> py_int (va @ vb) = None"
    using that by (simp add: get_toolset_version_def)
qed

theorem C4_failures_witness:
  "get_toolset_version (\<lambda>cmd. (Inl FileNotFoundError :: exn + unit \<times> string \<times> string))
     (\<lambda>text. Inr ''19.16.27034'') (\<lambda>version. Inr version) = Inl FileNotFoundError
   \<and> get_toolset_version (\<lambda>cmd. Inr ((), [], ''no banner''))
     (\<lambda>text. Inl (OtherError ''TypeError'')) (\<lambda>version. Inr version)
       = Inl (OtherError ''TypeError'')
   \<and> get_toolset_version (\<lambda>cmd. Inr ((), [], ''no banner''))
     (\<lambda>text. Inr ''unknown version'') (\<lambda>version. Inr version) = Inl ValueError
   \<and> get_toolset_version (\<lambda>cmd. Inr ((), [], ''no banner''))
     (\<lambda>text. Inr ''x.y.z'') (\<lambda>version. Inr version) = Inl ValueError
   \<and> get_toolset_version (\<lambda>cmd. Inr ((), [], ''no banner''))
     (\<lambda>text. Inr (CHR 0x1C # ''19.16'')) (\<lambda>version. Inr version) = Inl ValueError"
proof -
  let ?missing = "\<lambda>cmd :: string list. (Inl FileNotFoundError :: exn + unit \<times> string \<times> string)"
  let ?ran = "\<lambda>cmd :: string list. (Inr ((), [], ''no banner'') :: exn + unit \<times> string \<times> string)"
  let ?calc = "\<lambda>version :: int. (Inr version :: exn + int)"
  have one: "length (str_split ''unknown version'' CHR ''.'') < 2"
    by simp
  have two: "str_split ''x.y.z'' CHR ''.'' = ''x'' # ''y'' # [''z'']"
    by simp
  have bad: "py_int (''x'' @ ''y'') = None"
    by (simp add: py_int_def strip_def literal_def int_max_str_digits_def is_space_def
        is_digit_def)
  have a: "get_toolset_version ?missing (\<lambda>text. Inr ''19.16.27034'') ?calc
      = Inl FileNotFoundError"
    using C4_failures_propagate
      [where Popen_safe = ?missing and e = FileNotFoundError
        and search_version = "\<lambda>text. Inr ''19.16.27034''" and calculate_toolset_version = ?calc]
    by simp
  have b: "get_toolset_version ?ran (\<lambda>text. Inl (OtherError ''TypeError'')) ?calc
      = Inl (OtherError ''TypeError'')"
    using C4_failures_propagate
      [where Popen_safe = ?ran and e = "OtherError ''TypeError''" and p = "()" and out = "[]"
        and err = "''no banner''" and search_version = "\<lambda>text. Inl (OtherError ''TypeError'')"
        and calculate_toolset_version = ?calc]
    by simp
  have c: "get_toolset_version ?ran (\<lambda>text. Inr ''unknown version'') ?calc = Inl ValueError"
    using one C4_failures_propagate
      [where Popen_safe = ?ran and p = "()" and out = "[]" and err = "''no banner''"
        and search_version = "\<lambda>text. Inr ''unknown version''" and s = "''unknown version''"
        and calculate_toolset_version = ?calc]
    by simp
  have d: "get_toolset_version ?ran (\<lambda>text. Inr ''x.y.z'') ?calc = Inl ValueError"
    using two bad C4_failures_propagate
      [where Popen_safe = ?ran and p = "()" and out = "[]" and err = "''no banner''"
        and search_version = "\<lambda>text. Inr ''x.y.z''" and s = "''x.y.z''"
        and va = "''x''" and vb = "''y''" and rest = "[''z'']"
        and calculate_toolset_version = ?calc]
    by simp
  have three: "str_split (CHR 0x1C # ''19.16'') CHR ''.'' = (CHR 0x1C # ''19'') # ''16'' # []"
    by simp
  have sep: "py_int ((CHR 0x1C # ''19'') @ ''16'') = None"
    by (simp add: py_int_def strip_def literal_def int_max_str_digits_def is_space_def
        is_digit_def)
  have e: "get_toolset_version ?ran (\<lambda>text. Inr (CHR 0x1C # ''19.16'')) ?calc = Inl ValueError"
    using three sep C4_failures_propagate
      [where Popen_safe = ?ran and p = "()" and out = "[]" and err = "''no banner''"
        and search_version = "\<lambda>text. Inr (CHR 0x1C # ''19.16'')"
        and s = "CHR 0x1C # ''19.16''"
        and va = "CHR 0x1C # ''19''" and vb = "''16''" and rest = "[]"
        and calculate_toolset_version = ?calc]
    by simp
  from a b c d e show ?thesis
    by blast
qed

text \<open>
  Claim C4, as stated, fails: when the banner holds no version and the parser answers
  with a string without a dot, such as \<^verbatim>\<open>'unknown version'\<close>, the unpacking raises
  \<open>ValueError\<close>; and when starting \<^verbatim>\<open>cl.exe\<close> raises \<open>FileNotFoundError\<close>, that is the
  exception of the method. Neither is \<open>ToolchainDetectionError\<close>.
\<close>

theorem C4_counterexample:
  "get_toolset_version (\<lambda>cmd. Inr ((), [], ''command not recognized''))
     (\<lambda>text. Inr ''unknown version'') (\<lambda>version. Inr version) = Inl ValueError
   \<and> get_toolset_version (\<lambda>cmd. Inr ((), [], ''command not recognized''))
     (\<lambda>text. Inr ''unknown version'') (\<lambda>version. Inr version) \<noteq> Inl ToolchainDetectionError
   \<and> get_toolset_version (\<lambda>cmd. (Inl FileNotFoundError :: exn + unit \<times> string \<times> string))
     (\<lambda>text. Inr ''unknown version'') (\<lambda>version. Inr version) = Inl FileNotFoundError"
  by (simp add: get_toolset_version_def)

end
